theory Spec2Isabelle
  imports Complex_Main
begin

section \<open>Scalars, vectors and matrices of the linear-algebra library\<close>

text \<open>
  The program is \<^verbatim>\<open>src/heat/LinearHeatConduction.cc\<close>. Its scalars are
  \<^verbatim>\<open>PetscScalar\<close> values; they are modelled by exact real numbers, so every
  statement below is about the formulas the code evaluates, not about IEEE rounding.
  A \<^verbatim>\<open>Vec\<close> is the list of its entries, a \<^verbatim>\<open>Mat\<close> the map from a
  row and a column index to the entry. One process owns the whole grid, so that local
  and global numberings coincide and a collective reduction is the identity.
  Indices are natural numbers: the connectivity produced for a grid holds no negative
  entry.
\<close>

type_synonym PetscScalar = real
type_synonym Vec = "real list"
type_synonym Mat = "nat \<Rightarrow> nat \<Rightarrow> real"

datatype InsertMode = INSERT_VALUES | ADD_VALUES

definition set_value :: "InsertMode \<Rightarrow> real \<Rightarrow> real \<Rightarrow> real" where
  "set_value mode old new = (case mode of INSERT_VALUES \<Rightarrow> new | ADD_VALUES \<Rightarrow> old + new)"

definition VecSet :: "Vec \<Rightarrow> real \<Rightarrow> Vec" where
  "VecSet v a = map (\<lambda>_. a) v"

definition VecDuplicate :: "Vec \<Rightarrow> Vec" where
  "VecDuplicate v = map (\<lambda>_. 0) v"

definition VecCopy :: "Vec \<Rightarrow> Vec \<Rightarrow> Vec" where
  \<comment> \<open>\<^verbatim>\<open>VecCopy (x, y)\<close>: the new content of \<^verbatim>\<open>y\<close>.\<close>
  "VecCopy x y = x"

definition VecShift :: "Vec \<Rightarrow> real \<Rightarrow> Vec" where
  "VecShift v a = map (\<lambda>x. x + a) v"

definition VecScale :: "Vec \<Rightarrow> real \<Rightarrow> Vec" where
  "VecScale v a = map (\<lambda>x. a * x) v"

definition VecPointwiseMult :: "Vec \<Rightarrow> Vec \<Rightarrow> Vec" where
  \<comment> \<open>\<^verbatim>\<open>VecPointwiseMult (w, x, y)\<close>: the new content of \<^verbatim>\<open>w\<close>.\<close>
  "VecPointwiseMult x y = map2 (*) x y"

definition VecAXPY :: "Vec \<Rightarrow> real \<Rightarrow> Vec \<Rightarrow> Vec" where
  \<comment> \<open>\<^verbatim>\<open>VecAXPY (y, a, x)\<close>: y = y + a x.\<close>
  "VecAXPY y a x = map2 (\<lambda>yi xi. yi + a * xi) y x"

definition VecSum :: "Vec \<Rightarrow> real" where
  "VecSum v = fold (\<lambda>x acc. acc + x) v 0"

definition VecGetSize :: "Vec \<Rightarrow> nat" where
  "VecGetSize v = length v"



definition MatZeroEntries :: "Mat \<Rightarrow> Mat" where
  "MatZeroEntries A = (\<lambda>i j. 0)"

definition MatSetValuesLocal ::
  "Mat \<Rightarrow> nat \<Rightarrow> nat list \<Rightarrow> nat \<Rightarrow> nat list \<Rightarrow> real list \<Rightarrow> InsertMode \<Rightarrow> Mat" where
  \<comment> \<open>The block of values is row-major: entry (k, h) is \<^verbatim>\<open>y[k * n + h]\<close>.\<close>
  "MatSetValuesLocal A m idxm n idxn y mode =
     fold (\<lambda>k. fold (\<lambda>h B.
        B(idxm ! k := (B (idxm ! k))(idxn ! h :=
            set_value mode (B (idxm ! k) (idxn ! h)) (y ! (k * n + h))))) [0..<n]) [0..<m] A"

definition MatDiagonalScale :: "Mat \<Rightarrow> Vec \<Rightarrow> Vec \<Rightarrow> Mat" where
  \<comment> \<open>\<^verbatim>\<open>MatDiagonalScale (A, l, r)\<close>: A = diag(l) A diag(r).\<close>
  "MatDiagonalScale A l r =
     (\<lambda>i j. if i < length l \<and> j < length r then l ! i * A i j * r ! j else A i j)"

definition MatDiagonalSet :: "Mat \<Rightarrow> Vec \<Rightarrow> InsertMode \<Rightarrow> Mat" where
  "MatDiagonalSet A d mode =
     (\<lambda>i j. if i = j \<and> i < length d then set_value mode (A i j) (d ! i) else A i j)"

section \<open>The object and what the library hands to it\<close>

text \<open>The element list of a grid, as \<^verbatim>\<open>DMDAGetElements_2D\<close> and
  \<^verbatim>\<open>DMDAGetElements_3D\<close> return it: the number of elements, the number of nodes
  of an element and the flat connectivity array.\<close>

record elements =
  nel :: nat
  nen :: nat
  necon :: "nat list"

text \<open>
  What the element functions read of a grid: its own corner and widths
  (\<^verbatim>\<open>DMDAGetCorners\<close>), the corner and widths of its ghosted region
  (\<^verbatim>\<open>DMDAGetGhostCorners\<close>) and its element type. A grid held by one process
  has no ghost layer.
\<close>

datatype DMDAElementType = DMDA_ELEMENT_P1 | DMDA_ELEMENT_Q1

record DM =
  corner_xs :: int
  corner_ys :: int
  corner_zs :: int
  corner_m :: int
  corner_n :: int
  corner_p :: int
  ghost_xs :: int
  ghost_ys :: int
  ghost_zs :: int
  ghost_m :: int
  ghost_n :: int
  ghost_p :: int
  elementtype :: DMDAElementType

text \<open>Lines 1005 to 1048 and 1199 to 1259. The connectivity is filled for the element type
  Q1 only; a grid keeps the array once it is built, so a later call returns the same.\<close>

definition DMDAGetElements_2D :: "DM \<Rightarrow> elements" where
  "DMDAGetElements_2D dm =
     (let ns = 1;
          nn = 4;
          Xs = ghost_xs dm;
          Ys = ghost_ys dm;
          xe = corner_m dm + corner_xs dm;
          Xe = ghost_m dm + Xs;
          xs = (if corner_xs dm \<noteq> Xs then corner_xs dm - 1 else corner_xs dm);
          ye = corner_n dm + corner_ys dm;
          Ye = ghost_n dm + Ys;
          ys = (if corner_ys dm \<noteq> Ys then corner_ys dm - 1 else corner_ys dm);
          ne = ns * (xe - xs - 1) * (ye - ys - 1);
          e = concat (map (\<lambda>j. concat (map (\<lambda>i.
                let cell = [(i - Xs) + (j - Ys) * (Xe - Xs),
                            (i - Xs + 1) + (j - Ys) * (Xe - Xs),
                            (i - Xs + 1) + (j - Ys + 1) * (Xe - Xs),
                            (i - Xs) + (j - Ys + 1) * (Xe - Xs)]
                in if elementtype dm = DMDA_ELEMENT_Q1 then map nat cell else [])
               [xs..xe - 1 - 1])) [ys..ye - 1 - 1])
      in \<lparr>nel = nat ne, nen = nn, necon = e\<rparr>)"

definition DMDAGetElements_3D :: "DM \<Rightarrow> elements" where
  "DMDAGetElements_3D dm =
     (let ns = 1;
          nn = 8;
          Xs = ghost_xs dm;
          Ys = ghost_ys dm;
          Zs = ghost_zs dm;
          xe = corner_m dm + corner_xs dm;
          Xe = ghost_m dm + Xs;
          xs = (if corner_xs dm \<noteq> Xs then corner_xs dm - 1 else corner_xs dm);
          ye = corner_n dm + corner_ys dm;
          Ye = ghost_n dm + Ys;
          ys = (if corner_ys dm \<noteq> Ys then corner_ys dm - 1 else corner_ys dm);
          ze = corner_p dm + corner_zs dm;
          Ze = ghost_p dm + Zs;
          zs = (if corner_zs dm \<noteq> Zs then corner_zs dm - 1 else corner_zs dm);
          ne = ns * (xe - xs - 1) * (ye - ys - 1) * (ze - zs - 1);
          e = concat (map (\<lambda>k. concat (map (\<lambda>j. concat (map (\<lambda>i.
                let cell = [(i - Xs) + (j - Ys) * (Xe - Xs) + (k - Zs) * (Xe - Xs) * (Ye - Ys),
                            (i - Xs + 1) + (j - Ys) * (Xe - Xs) + (k - Zs) * (Xe - Xs) * (Ye - Ys),
                            (i - Xs + 1) + (j - Ys + 1) * (Xe - Xs) + (k - Zs) * (Xe - Xs) * (Ye - Ys),
                            (i - Xs) + (j - Ys + 1) * (Xe - Xs) + (k - Zs) * (Xe - Xs) * (Ye - Ys),
                            (i - Xs) + (j - Ys) * (Xe - Xs) + (k - Zs + 1) * (Xe - Xs) * (Ye - Ys),
                            (i - Xs + 1) + (j - Ys) * (Xe - Xs) + (k - Zs + 1) * (Xe - Xs) * (Ye - Ys),
                            (i - Xs + 1) + (j - Ys + 1) * (Xe - Xs) + (k - Zs + 1) * (Xe - Xs) * (Ye - Ys),
                            (i - Xs) + (j - Ys + 1) * (Xe - Xs) + (k - Zs + 1) * (Xe - Xs) * (Ye - Ys)]
                in if elementtype dm = DMDA_ELEMENT_Q1 then map nat cell else [])
               [xs..xe - 1 - 1])) [ys..ye - 1 - 1])) [zs..ze - 1 - 1])
      in \<lparr>nel = nat ne, nen = nn, necon = e\<rparr>)"

datatype KSPType = KSPDEFAULT | KSPFGMRES | KSPGMRES | KSPCG | KSPCHEBYSHEV

datatype PCType = PCDEFAULT | PCMG | PCSOR | PCJACOBI

text \<open>The settings of one Krylov solver object that \<^verbatim>\<open>SetUpSolver\<close> touches.\<close>

record KSP =
  ksp_type :: KSPType
  gmres_restart :: int
  rtol :: real
  abstol :: real
  dtol :: real
  maxits :: int
  guess_nonzero :: bool
  pc_type :: PCType

text \<open>The main solver and, when its preconditioner is the multigrid one, the solvers of
  the levels: level 0 is the coarse-grid solver, the others are the smoothers.\<close>

record solver =
  main_ksp :: KSP
  mg_levels :: "KSP list"

text \<open>The disk is the list of the files written, the most recent first, each with the
  vector written; a file holds what was written to it last.\<close>

type_synonym disk = "(string \<times> Vec) list"

text \<open>
  What is not under \<^verbatim>\<open>src/\<close> is a parameter: the power function behind the macro
  \<^verbatim>\<open>PetscPowScalar\<close>, the header's constant \<^verbatim>\<open>nedof\<close> and macro
  \<^verbatim>\<open>IMPORT_GEO\<close>, the linear solve, the solver objects as the library creates
  them, the effect of the options database on the main solver, and the command-line
  options the code reads.
\<close>

record petsc =
  PetscPowScalar :: "real \<Rightarrow> real \<Rightarrow> real"
  nedof :: nat
  IMPORT_GEO :: int
  KSPSolve :: "solver \<Rightarrow> Mat \<Rightarrow> Vec \<Rightarrow> Vec \<Rightarrow> Vec"
  KSPCreate :: KSP
  PCMGSetLevels :: "nat \<Rightarrow> KSP"
  KSPSetFromOptions :: "KSP \<Rightarrow> KSP"
  opt_restart :: "bool option"
  opt_onlyLoadDesign :: "bool option"
  opt_workdir :: "string option"
  opt_restartFileVecSol :: "string option"

text \<open>The members of the class \<^verbatim>\<open>LinearHeatConduction\<close>. The grid
  \<^verbatim>\<open>da_nodal\<close> is kept as its element list.\<close>

record LinearHeatConduction =
  K :: Mat
  U :: Vec
  RHS :: Vec
  N :: Vec
  KE :: "real list"
  ksp :: "solver option"
  da_nodal :: elements
  nlvls :: int
  xc :: "real list"
  restart :: bool
  flip :: bool
  filename00 :: string
  filename01 :: string

section \<open>Element kernel\<close>














section \<open>Problem setup\<close>



definition element_dofs :: "elements \<Rightarrow> nat \<Rightarrow> nat list" where
  \<comment> \<open>\<^verbatim>\<open>edof[l] = necon[i * nen + l]\<close> for every \<open>l < nen\<close>.\<close>
  "element_dofs e i = map (\<lambda>l. necon e ! (i * nen e + l)) [0..<nen e]"







section \<open>Matrix assembler\<close>

text \<open>Lines 704 to 728: the matrix is zeroed and every element adds its scaled copy of
  the cached element matrix.\<close>

definition assemble_elements ::
  "petsc \<Rightarrow> LinearHeatConduction \<Rightarrow> Vec \<Rightarrow> real \<Rightarrow> real \<Rightarrow> real \<Rightarrow> Mat" where
  "assemble_elements lib s xp Emin Emax penal =
     fold (\<lambda>i A.
        let edof = element_dofs (da_nodal s) i;
            dens = Emin + PetscPowScalar lib (xp ! i) penal * (Emax - Emin);
            ke = map (\<lambda>k. KE s ! k * dens) [0..<nedof lib * nedof lib]
        in MatSetValuesLocal A (nedof lib) edof (nedof lib) edof ke ADD_VALUES)
       [0..<nel (da_nodal s)] (MatZeroEntries (K s))"

text \<open>Lines 730 to 742: the Dirichlet conditions.\<close>

definition impose_dirichlet :: "LinearHeatConduction \<Rightarrow> LinearHeatConduction" where
  "impose_dirichlet s =
     (let K1 = MatDiagonalScale (K s) (N s) (N s);
          NI = VecAXPY (VecSet (VecDuplicate (N s)) 1.0) (- 1.0) (N s);
          K2 = MatDiagonalSet K1 NI ADD_VALUES
      in s\<lparr>K := K2, RHS := VecPointwiseMult (RHS s) (N s)\<rparr>)"

definition AssembleConductivityMatrix ::
  "petsc \<Rightarrow> LinearHeatConduction \<Rightarrow> Vec \<Rightarrow> real \<Rightarrow> real \<Rightarrow> real \<Rightarrow> LinearHeatConduction" where
  "AssembleConductivityMatrix lib s xPhys Emin Emax penal =
     impose_dirichlet (s\<lparr>K := assemble_elements lib s xPhys Emin Emax penal\<rparr>)"

section \<open>Linear solver configurator\<close>

definition KSPSetType :: "KSP \<Rightarrow> KSPType \<Rightarrow> KSP" where
  "KSPSetType k t = k\<lparr>ksp_type := t\<rparr>"

definition KSPGMRESSetRestart :: "KSP \<Rightarrow> int \<Rightarrow> KSP" where
  "KSPGMRESSetRestart k r = k\<lparr>gmres_restart := r\<rparr>"

text \<open>An argument \<open>None\<close> stands for \<^verbatim>\<open>PETSC_DEFAULT\<close>: the library then leaves the
  setting as it is.\<close>

definition KSPSetTolerances :: "KSP \<Rightarrow> real option \<Rightarrow> real option \<Rightarrow> real option \<Rightarrow> int option \<Rightarrow> KSP" where
  "KSPSetTolerances k r a d m =
     k\<lparr>rtol := (case r of None \<Rightarrow> rtol k | Some x \<Rightarrow> x),
       abstol := (case a of None \<Rightarrow> abstol k | Some x \<Rightarrow> x),
       dtol := (case d of None \<Rightarrow> dtol k | Some x \<Rightarrow> x),
       maxits := (case m of None \<Rightarrow> maxits k | Some x \<Rightarrow> x)\<rparr>"

definition KSPSetInitialGuessNonzero :: "KSP \<Rightarrow> bool \<Rightarrow> KSP" where
  "KSPSetInitialGuessNonzero k b = k\<lparr>guess_nonzero := b\<rparr>"

definition PCSetType :: "KSP \<Rightarrow> PCType \<Rightarrow> KSP" where
  "PCSetType k t = k\<lparr>pc_type := t\<rparr>"

definition PetscOptionsGetBool :: "bool option \<Rightarrow> bool \<Rightarrow> bool" where
  "PetscOptionsGetBool opt current = (case opt of None \<Rightarrow> current | Some b \<Rightarrow> b)"

text \<open>Lines 756 to 816: the restart flags, the names of the two checkpoint files and the
  optional load of a saved temperature field.\<close>

definition restart_point :: "petsc \<Rightarrow> disk \<Rightarrow> LinearHeatConduction \<Rightarrow> LinearHeatConduction" where
  "restart_point lib dsk s =
     (let s1 = s\<lparr>restart := PetscOptionsGetBool (opt_restart lib) True, flip := True\<rparr>;
          onlyDesign = PetscOptionsGetBool (opt_onlyLoadDesign lib) False
      in if restart s1 then
           (let filenameWorkdir = (case opt_workdir lib of None \<Rightarrow> ''./'' | Some w \<Rightarrow> [] @ w);
                s2 = s1\<lparr>filename00 := filenameWorkdir @ ''/RestartSol00.dat'',
                        filename01 := filenameWorkdir @ ''/RestartSol01.dat''\<rparr>
            in if \<not> onlyDesign then
                 (let restartFileVec =
                        (case opt_restartFileVecSol lib of None \<Rightarrow> [] | Some f \<Rightarrow> [] @ f)
                  in case map_of dsk restartFileVec of None \<Rightarrow> s2 | Some v \<Rightarrow> s2\<lparr>U := v\<rparr>)
               else s2)
         else s1)"

text \<open>Lines 930 to 961: the coarse-grid solver and the smoothers of the other levels.\<close>

definition configure_levels :: "int \<Rightarrow> KSP list \<Rightarrow> KSP list" where
  "configure_levels nl lv =
     (let coarse_rtol = 1.0 / 10 ^ 8;
          coarse_atol = 1.0 / 10 ^ 50;
          coarse_dtol = 1 * 10 ^ 5;
          coarse_maxits = 30;
          coarse_restart = 30;
          smooth_sweeps = 4;
          cksp = PCSetType (KSPSetTolerances (KSPGMRESSetRestart (KSPSetType (lv ! 0) KSPGMRES)
                    coarse_restart) (Some coarse_rtol) (Some coarse_atol) (Some coarse_dtol)
                    (Some coarse_maxits)) PCSOR
      in fold (\<lambda>k l.
            l[k := PCSetType (KSPSetTolerances (KSPGMRESSetRestart (KSPSetType (l ! k) KSPGMRES)
                      smooth_sweeps) None None None (Some smooth_sweeps)) PCSOR])
           [1..<nat nl] (lv[0 := cksp]))"

definition SetUpSolver :: "petsc \<Rightarrow> disk \<Rightarrow> LinearHeatConduction \<Rightarrow> LinearHeatConduction" where
  "SetUpSolver lib dsk s =
     (let s1 = restart_point lib dsk s;
          rtol = 1.0 / 10 ^ 5;
          atol = 1.0 / 10 ^ 50;
          dtol = 1.0 * 10 ^ 5;
          restart = 100;
          maxitsGlobal = 200;
          k1 = KSPSetType (KSPCreate lib) KSPFGMRES;
          k2 = KSPGMRESSetRestart k1 restart;
          k3 = KSPSetTolerances k2 (Some rtol) (Some atol) (Some dtol) (Some maxitsGlobal);
          k4 = KSPSetInitialGuessNonzero k3 True;
          k5 = PCSetType k4 PCMG;
          k6 = KSPSetFromOptions lib k5;
          pcmg_flag = (pc_type k6 = PCMG);
          lv = (if pcmg_flag
                then configure_levels (nlvls s1) (map (PCMGSetLevels lib) [0..<nat (nlvls s1)])
                else [])
      in s1\<lparr>ksp := Some \<lparr>main_ksp = k6, mg_levels = lv\<rparr>\<rparr>)"

section \<open>Response and sensitivity evaluator\<close>

definition SolveState ::
  "petsc \<Rightarrow> disk \<Rightarrow> LinearHeatConduction \<Rightarrow> Vec \<Rightarrow> real \<Rightarrow> real \<Rightarrow> real \<Rightarrow> LinearHeatConduction" where
  "SolveState lib dsk s xPhys Emin Emax penal =
     (let s1 = AssembleConductivityMatrix lib s xPhys Emin Emax penal;
          s2 = (if ksp s1 = None then SetUpSolver lib dsk s1 else s1)
      in case ksp s2 of
           None \<Rightarrow> s2
         | Some sv \<Rightarrow> s2\<lparr>U := KSPSolve lib sv (K s2) (RHS s2) (U s2)\<rparr>)"

text \<open>Lines 558 to 563: the quadratic form of the element matrix at the element's
  temperatures.\<close>

definition element_uKu :: "nat \<Rightarrow> real list \<Rightarrow> real list \<Rightarrow> nat list \<Rightarrow> real" where
  "element_uKu nd ke up edof =
     fold (\<lambda>k. fold (\<lambda>h uKu. uKu + up ! (edof ! k) * ke ! (k * nd + h) * up ! (edof ! h)) [0..<nd])
       [0..<nd] 0.0"

text \<open>Lines 549 to 574: the body of the element loop, on the pair of the objective and
  the array \<^verbatim>\<open>df\<close>.\<close>

definition sensitivity_element ::
  "petsc \<Rightarrow> LinearHeatConduction \<Rightarrow> Vec \<Rightarrow> real \<Rightarrow> real \<Rightarrow> real \<Rightarrow> Vec \<Rightarrow> Vec \<Rightarrow> Vec \<Rightarrow>
     nat \<Rightarrow> real \<times> real list \<Rightarrow> real \<times> real list" where
  "sensitivity_element lib s xp Emin Emax penal xPassive0p xPassive1p xPassive2p i =
     (\<lambda>(f, df).
        if xPassive0p ! i = 0 \<and> xPassive1p ! i = 0 \<and> xPassive2p ! i = 0 then
          (let edof = element_dofs (da_nodal s) i;
               uKu = element_uKu (nedof lib) (KE s) (U s) edof
           in (f + (Emin + PetscPowScalar lib (xp ! i) penal * (Emax - Emin)) * uKu,
               df[i := - 1.0 * penal * PetscPowScalar lib (xp ! i) (penal - 1) * (Emax - Emin) * uKu]))
        else if xPassive0p ! i = 1 then (f, df[i := 1.0 * 10 ^ 9])
        else if xPassive1p ! i = 1 \<or> xPassive2p ! i = 1 then (f, df[i := - 1.0 * 10 ^ 9])
        else (f, df))"

definition MPI_Allreduce_SUM :: "real \<Rightarrow> real" where
  \<comment> \<open>The sum over the processes; there is one.\<close>
  "MPI_Allreduce_SUM tmp = tmp"

record response =
  fx :: real
  gx :: real
  dfdx :: Vec
  dgdx :: Vec
  state :: LinearHeatConduction

definition ComputeObjectiveConstraintsSensitivities ::
  "petsc \<Rightarrow> disk \<Rightarrow> LinearHeatConduction \<Rightarrow> Vec \<Rightarrow> Vec \<Rightarrow> Vec \<Rightarrow> real \<Rightarrow> real \<Rightarrow> real \<Rightarrow> real \<Rightarrow>
     Vec \<Rightarrow> Vec \<Rightarrow> Vec \<Rightarrow> response" where
  "ComputeObjectiveConstraintsSensitivities lib dsk s dfdx0 dgdx0 xPhys Emin Emax penal volfrac
       xPassive0 xPassive1 xPassive2 =
     (let s1 = SolveState lib dsk s xPhys Emin Emax penal;
          (tmp, df) = fold (sensitivity_element lib s1 xPhys Emin Emax penal
                              xPassive0 xPassive1 xPassive2)
                        [0..<nel (da_nodal s1)] (0.0, dfdx0);
          tmpVec0 = VecScale (VecShift (VecCopy xPassive0 (VecDuplicate dgdx0)) (- 1)) (- 1);
          tmpVec1 = VecScale (VecShift (VecCopy xPassive1 (VecDuplicate dgdx0)) (- 1)) (- 1);
          tmpVec2 = VecScale (VecShift (VecCopy xPassive2 (VecDuplicate dgdx0)) (- 1)) (- 1);
          tmpxPhys = VecPointwiseMult (VecPointwiseMult (VecPointwiseMult
                        (VecCopy xPhys (VecDuplicate xPhys)) tmpVec0) tmpVec1) tmpVec2;
          nNonDesign0 = VecSum xPassive0;
          nNonDesign1 = VecSum xPassive1;
          nNonDesign2 = VecSum xPassive2;
          neltot = VecGetSize tmpxPhys;
          g = VecSum tmpxPhys;
          g' = g / (real neltot - nNonDesign0 - nNonDesign1 - nNonDesign2) - volfrac;
          dg = VecSet dgdx0 (1.0 / (real neltot - nNonDesign0 - nNonDesign1 - nNonDesign2));
          dg' = VecPointwiseMult (VecPointwiseMult (VecPointwiseMult dg tmpVec0) tmpVec1) tmpVec2
      in \<lparr>fx = MPI_Allreduce_SUM tmp, gx = g', dfdx = df, dgdx = dg', state = s1\<rparr>)"

section \<open>Checkpoints\<close>

text \<open>The function returns its error code, the object and the disk, on which
  \<^verbatim>\<open>VecView\<close> has written the temperature field under the name the viewer was
  opened with.\<close>

definition WriteRestartFiles ::
  "disk \<Rightarrow> LinearHeatConduction \<Rightarrow> int \<times> LinearHeatConduction \<times> disk" where
  "WriteRestartFiles dsk s =
     (if \<not> restart s then (- 1, s, dsk)
      else
        (let s1 = (if flip s then s\<lparr>flip := False\<rparr> else s\<lparr>flip := True\<rparr>);
             view = (if \<not> flip s1 then filename00 s1 else filename01 s1)
         in (0, s1, (view, U s1) # dsk)))"

section \<open>The claims' words\<close>

text \<open>The mask \<open>1 - xPassive\<close> that lines 583 to 594 build three times.\<close>

definition design_mask :: "Vec \<Rightarrow> Vec \<Rightarrow> Vec" where
  "design_mask p d = VecScale (VecShift (VecCopy p (VecDuplicate d)) (- 1)) (- 1)"

text \<open>The quadratic form of the element matrix \<open>ke\<close> at the temperatures \<open>u\<close> of the
  nodes of element \<open>i\<close>.\<close>

definition quadratic_form :: "nat \<Rightarrow> real list \<Rightarrow> real list \<Rightarrow> elements \<Rightarrow> nat \<Rightarrow> real" where
  "quadratic_form nd ke u e i =
     (\<Sum>k<nd. \<Sum>h<nd. u ! (necon e ! (i * nen e + k)) * ke ! (k * nd + h) * u ! (necon e ! (i * nen e + h)))"









section \<open>Two small grids\<close>

text \<open>A row of four square elements of side 1 on five by two nodes, as
  \<^verbatim>\<open>DMDAGetElements_2D\<close> numbers them on the grid \<open>row_dm\<close> of one process.\<close>

definition row_elements :: elements where
  "row_elements = \<lparr>nel = 4, nen = 4,
     necon = [0, 1, 6, 5,  1, 2, 7, 6,  2, 3, 8, 7,  3, 4, 9, 8]\<rparr>"

definition row_dm :: DM where
  "row_dm = \<lparr>corner_xs = 0, corner_ys = 0, corner_zs = 0, corner_m = 5, corner_n = 2, corner_p = 1,
     ghost_xs = 0, ghost_ys = 0, ghost_zs = 0, ghost_m = 5, ghost_n = 2, ghost_p = 1,
     elementtype = DMDA_ELEMENT_Q1\<rparr>"



text \<open>Two by one by two cubes of side 1 on three by two by three nodes, as
  \<^verbatim>\<open>DMDAGetElements_3D\<close> numbers them on the grid \<open>block_dm\<close> of one process.\<close>

definition block_elements :: elements where
  "block_elements = \<lparr>nel = 4, nen = 8,
     necon = [0, 1, 4, 3, 6, 7, 10, 9,  1, 2, 5, 4, 7, 8, 11, 10,
              6, 7, 10, 9, 12, 13, 16, 15,  7, 8, 11, 10, 13, 14, 17, 16]\<rparr>"

definition block_dm :: DM where
  "block_dm = \<lparr>corner_xs = 0, corner_ys = 0, corner_zs = 0, corner_m = 3, corner_n = 2, corner_p = 3,
     ghost_xs = 0, ghost_ys = 0, ghost_zs = 0, ghost_m = 3, ghost_n = 2, ghost_p = 3,
     elementtype = DMDA_ELEMENT_Q1\<rparr>"



text \<open>A library whose power function handles whole exponents, whose solve returns the
  initial guess, and with no option given.\<close>

definition plain_KSP :: KSP where
  "plain_KSP = \<lparr>ksp_type = KSPDEFAULT, gmres_restart = 30, rtol = 1 / 10 ^ 5, abstol = 1 / 10 ^ 50,
     dtol = 10 ^ 4, maxits = 10000, guess_nonzero = False, pc_type = PCDEFAULT\<rparr>"

definition plain_lib :: petsc where
  "plain_lib = \<lparr>PetscPowScalar = (\<lambda>x p. x ^ nat \<lfloor>p\<rfloor>), nedof = 4, IMPORT_GEO = 0,
     KSPSolve = (\<lambda>sv A b u. u), KSPCreate = plain_KSP, PCMGSetLevels = (\<lambda>k. plain_KSP),
     KSPSetFromOptions = (\<lambda>k. k), opt_restart = None, opt_onlyLoadDesign = None,
     opt_workdir = None, opt_restartFileVecSol = None\<rparr>"

text \<open>An object on the row of four elements: the exact element matrix of the unit square, the
  node in the middle of the bottom edge fixed, a temperature field with gradient (1, 1),
  and a matrix still holding old entries.\<close>

definition row_object :: LinearHeatConduction where
  "row_object = \<lparr>K = (\<lambda>i j. 7), U = [0, 1, 2, 3, 4, 1, 2, 3, 4, 5],
     RHS = [1 / 4000, 1 / 2000, 1 / 2000, 1 / 2000, 1 / 4000,
            1 / 4000, 1 / 2000, 1 / 2000, 1 / 2000, 1 / 4000],
     N = [1, 1, 0, 1, 1, 1, 1, 1, 1, 1],
     KE = [2 / 3, - 1 / 6, - 1 / 3, - 1 / 6,
           - 1 / 6, 2 / 3, - 1 / 6, - 1 / 3,
           - 1 / 3, - 1 / 6, 2 / 3, - 1 / 6,
           - 1 / 6, - 1 / 3, - 1 / 6, 2 / 3],
     ksp = None, da_nodal = row_elements, nlvls = 4, xc = [0, 4, 0, 1],
     restart = False, flip = False, filename00 = [], filename01 = []\<rparr>"

text \<open>Densities and passive flags on the row: element 0 is free, element 1 is solid and
  loaded, element 2 is fixed, and element 3 carries a flag that is neither 0 nor 1.\<close>

definition row_density :: Vec where
  "row_density = [1 / 2, 1 / 2, 1 / 2, 1 / 2]"

definition row_solid :: Vec where
  "row_solid = [0, 1, 0, 1 / 2]"

definition row_fixed :: Vec where
  "row_fixed = [0, 0, 1, 0]"

definition row_loaded :: Vec where
  "row_loaded = [0, 1, 0, 0]"

text \<open>One evaluation on the row, with the array \<^verbatim>\<open>df\<close> holding 5 everywhere
  beforehand.\<close>

definition row_response :: response where
  "row_response = ComputeObjectiveConstraintsSensitivities plain_lib [] row_object
     [5, 5, 5, 5] [0, 0, 0, 0] row_density (1 / 10 ^ 9) 1 3 (2 / 5) row_solid row_fixed row_loaded"
text \<open>The object once the solver is set up, and two checkpoints written one after the
  other on an empty disk.\<close>

definition row_configured :: LinearHeatConduction where
  "row_configured = SetUpSolver plain_lib [] row_object"

definition first_write :: "int \<times> LinearHeatConduction \<times> disk" where
  "first_write = WriteRestartFiles [] row_configured"

definition second_write :: "int \<times> LinearHeatConduction \<times> disk" where
  "second_write = WriteRestartFiles (snd (snd first_write)) (fst (snd first_write))"

section \<open>Loops as sums\<close>

text \<open>Every loop of the program that accumulates is a \<open>fold\<close> whose step adds a term to
  what is read afterwards; such a fold adds the sum of the terms.\<close>

subsection \<open>Folds that add\<close>

lemma fold_additive:
  fixes rd :: "'s \<Rightarrow> 'v::comm_monoid_add"
  assumes "\<And>x a. P a \<Longrightarrow> P (g x a)"
      and "\<And>x a. P a \<Longrightarrow> rd (g x a) = rd a + d x"
  shows "P a \<Longrightarrow> P (fold g xs a) \<and> rd (fold g xs a) = rd a + sum_list (map d xs)"
  by (induction xs arbitrary: a) (simp_all add: assms add.assoc)

lemma fold_additive_step:
  fixes rd :: "'s \<Rightarrow> real"
  assumes "\<And>x a. P a \<Longrightarrow> P (g x a) \<and> rd (g x a) = rd a + d x"
  shows "P a \<Longrightarrow> P (fold g xs a) \<and> rd (fold g xs a) = rd a + sum_list (map d xs)"
  by (induction xs arbitrary: a) (simp_all add: assms add.assoc)

lemma sum_list_upt_lessThan: "sum_list (map f [0..<n]) = (\<Sum>i<n. f i)"
  by (simp add: interv_sum_list_conv_sum_set_nat atLeast0LessThan)

lemma fold_add_scalar:
  fixes a :: real
  shows "fold (\<lambda>i acc. acc + f i) [0..<n] a = a + (\<Sum>i<n. f i)"
  using fold_additive [where P = "\<lambda>_. True" and rd = "\<lambda>a. a" and g = "\<lambda>i acc. acc + f i" and d = f and a = a and xs = "[0..<n]"]
  by (simp add: sum_list_upt_lessThan)

lemma fold_add_scalar_fun:
  "fold (\<lambda>i (acc::real). acc + f i) [0..<n] = (\<lambda>a. a + (\<Sum>i<n. f i))"
  by (rule ext) (rule fold_add_scalar)

subsection \<open>The element loop of the evaluator\<close>

text \<open>The body of the loop writes one entry of the array and adds one term to the objective.\<close>

lemma element_uKu_sum:
  "element_uKu nd ke up edof = (\<Sum>k<nd. \<Sum>h<nd. up ! (edof ! k) * ke ! (k * nd + h) * up ! (edof ! h))"
  by (simp add: element_uKu_def fold_add_scalar_fun)

lemma sensitivity_element_length:
  "length (snd (sensitivity_element lib s xp Emin Emax penal p0 p1 p2 i p)) = length (snd p)"
  by (cases p) (simp add: sensitivity_element_def Let_def)

lemma sensitivity_element_other:
  "m \<noteq> i \<Longrightarrow> snd (sensitivity_element lib s xp Emin Emax penal p0 p1 p2 i p) ! m = snd p ! m"
  by (cases p) (simp add: sensitivity_element_def Let_def)

lemma sensitivity_element_fst:
  "fst (sensitivity_element lib s xp Emin Emax penal p0 p1 p2 i p) =
     fst p + (if p0 ! i = 0 \<and> p1 ! i = 0 \<and> p2 ! i = 0
              then (Emin + PetscPowScalar lib (xp ! i) penal * (Emax - Emin))
                   * element_uKu (nedof lib) (KE s) (U s) (element_dofs (da_nodal s) i)
              else 0)"
  by (cases p) (simp add: sensitivity_element_def Let_def)

lemma sensitivity_element_at:
  "i < length (snd p) \<Longrightarrow>
   snd (sensitivity_element lib s xp Emin Emax penal p0 p1 p2 i p) ! i =
     (if p0 ! i = 0 \<and> p1 ! i = 0 \<and> p2 ! i = 0
      then - penal * PetscPowScalar lib (xp ! i) (penal - 1) * (Emax - Emin)
           * element_uKu (nedof lib) (KE s) (U s) (element_dofs (da_nodal s) i)
      else if p0 ! i = 1 then 10 ^ 9
      else if p1 ! i = 1 \<or> p2 ! i = 1 then - (10 ^ 9)
      else snd p ! i)"
  by (cases p) (simp add: sensitivity_element_def Let_def)

lemma sensitivity_loop_length:
  "length (snd (fold (sensitivity_element lib s xp Emin Emax penal p0 p1 p2) xs p)) = length (snd p)"
  by (induction xs arbitrary: p) (simp_all add: sensitivity_element_length)

lemma sensitivity_loop_untouched:
  "m \<notin> set xs \<Longrightarrow>
   snd (fold (sensitivity_element lib s xp Emin Emax penal p0 p1 p2) xs p) ! m = snd p ! m"
  by (induction xs arbitrary: p) (simp_all add: sensitivity_element_other)

lemma sensitivity_loop_fst:
  "fst (fold (sensitivity_element lib s xp Emin Emax penal p0 p1 p2) [0..<n] p) =
     fst p + (\<Sum>i<n. if p0 ! i = 0 \<and> p1 ! i = 0 \<and> p2 ! i = 0
              then (Emin + PetscPowScalar lib (xp ! i) penal * (Emax - Emin))
                   * element_uKu (nedof lib) (KE s) (U s) (element_dofs (da_nodal s) i)
              else 0)"
  using fold_additive [where P = "\<lambda>_. True" and rd = fst
      and g = "sensitivity_element lib s xp Emin Emax penal p0 p1 p2" and a = p and xs = "[0..<n]",
      OF _ sensitivity_element_fst]
  by (simp add: sum_list_upt_lessThan)

lemma sensitivity_loop_snd:
  "m < n \<Longrightarrow> m < length (snd p) \<Longrightarrow>
   snd (fold (sensitivity_element lib s xp Emin Emax penal p0 p1 p2) [0..<n] p) ! m =
     (if p0 ! m = 0 \<and> p1 ! m = 0 \<and> p2 ! m = 0
      then - penal * PetscPowScalar lib (xp ! m) (penal - 1) * (Emax - Emin)
           * element_uKu (nedof lib) (KE s) (U s) (element_dofs (da_nodal s) m)
      else if p0 ! m = 1 then 10 ^ 9
      else if p1 ! m = 1 \<or> p2 ! m = 1 then - (10 ^ 9)
      else snd p ! m)"
proof (induction n)
  case 0
  then show ?case by simp
next
  case (Suc n)
  let ?q = "fold (sensitivity_element lib s xp Emin Emax penal p0 p1 p2) [0..<n] p"
  show ?case
  proof (cases "m = n")
    case True
    have "snd ?q ! n = snd p ! n"
      by (rule sensitivity_loop_untouched) simp
    moreover have "n < length (snd ?q)"
      using Suc.prems True by (simp add: sensitivity_loop_length)
    ultimately show ?thesis
      using True sensitivity_element_at [of n ?q lib s xp Emin Emax penal p0 p1 p2] by simp
  next
    case False
    with Suc.prems have "m < n" by simp
    with Suc False show ?thesis by (simp add: sensitivity_element_other)
  qed
qed

lemma SolveState_frame:
  "da_nodal (SolveState lib dsk s xp Emin Emax penal) = da_nodal s"
  "KE (SolveState lib dsk s xp Emin Emax penal) = KE s"
  by (simp_all add: SolveState_def AssembleConductivityMatrix_def impose_dirichlet_def
      SetUpSolver_def restart_point_def Let_def split: option.splits)

lemma evaluator_dfdx:
  "dfdx (ComputeObjectiveConstraintsSensitivities lib dsk s df0 dg0 xp Emin Emax penal vf p0 p1 p2) =
   snd (fold (sensitivity_element lib (SolveState lib dsk s xp Emin Emax penal) xp Emin Emax penal p0 p1 p2)
          [0..<nel (da_nodal s)] (0, df0))"
  by (simp add: ComputeObjectiveConstraintsSensitivities_def Let_def case_prod_beta SolveState_frame)

lemma evaluator_fx:
  "fx (ComputeObjectiveConstraintsSensitivities lib dsk s df0 dg0 xp Emin Emax penal vf p0 p1 p2) =
   fst (fold (sensitivity_element lib (SolveState lib dsk s xp Emin Emax penal) xp Emin Emax penal p0 p1 p2)
          [0..<nel (da_nodal s)] (0, df0))"
  by (simp add: ComputeObjectiveConstraintsSensitivities_def Let_def case_prod_beta SolveState_frame
      MPI_Allreduce_SUM_def)

lemma evaluator_state:
  "state (ComputeObjectiveConstraintsSensitivities lib dsk s df0 dg0 xp Emin Emax penal vf p0 p1 p2) =
   SolveState lib dsk s xp Emin Emax penal"
  by (simp add: ComputeObjectiveConstraintsSensitivities_def Let_def case_prod_beta)

lemma evaluator_dfdx_nth:
  assumes "i < nel (da_nodal s)" and "i < length df0"
  shows "dfdx (ComputeObjectiveConstraintsSensitivities lib dsk s df0 dg0 xp Emin Emax penal vf p0 p1 p2) ! i =
     (if p0 ! i = 0 \<and> p1 ! i = 0 \<and> p2 ! i = 0
      then - penal * PetscPowScalar lib (xp ! i) (penal - 1) * (Emax - Emin)
           * element_uKu (nedof lib) (KE s) (U (SolveState lib dsk s xp Emin Emax penal))
               (element_dofs (da_nodal s) i)
      else if p0 ! i = 1 then 10 ^ 9
      else if p1 ! i = 1 \<or> p2 ! i = 1 then - (10 ^ 9)
      else df0 ! i)"
  using assms by (simp only: evaluator_dfdx) (simp add: sensitivity_loop_snd SolveState_frame)

subsection \<open>The volume constraint\<close>

lemma VecSum_sum_list: "VecSum v = sum_list v"
proof -
  have "fold (\<lambda>x acc. acc + x) v a = a + sum_list v" for a :: real
    by (induction v arbitrary: a) simp_all
  then show ?thesis by (simp add: VecSum_def)
qed

lemma VecSum_nth: "VecSum v = (\<Sum>i<length v. v ! i)"
  by (simp add: VecSum_sum_list sum_list_sum_nth atLeast0LessThan)

lemma design_mask_length: "length (design_mask p d) = length p"
  by (simp add: design_mask_def VecScale_def VecShift_def VecCopy_def)

lemma design_mask_nth: "i < length p \<Longrightarrow> design_mask p d ! i = 1 - p ! i"
  by (simp add: design_mask_def VecScale_def VecShift_def VecCopy_def)

lemma VecPointwiseMult_length: "length (VecPointwiseMult x y) = min (length x) (length y)"
  by (simp add: VecPointwiseMult_def)

lemma VecPointwiseMult_nth:
  "i < length x \<Longrightarrow> i < length y \<Longrightarrow> VecPointwiseMult x y ! i = x ! i * y ! i"
  by (simp add: VecPointwiseMult_def)

lemma masked_length:
  assumes "length p0 = length x" "length p1 = length x" "length p2 = length x"
  shows "length (VecPointwiseMult (VecPointwiseMult (VecPointwiseMult x (design_mask p0 d))
            (design_mask p1 d)) (design_mask p2 d)) = length x"
  using assms by (simp add: VecPointwiseMult_length design_mask_length)

lemma masked_nth:
  assumes "length p0 = length x" "length p1 = length x" "length p2 = length x" "i < length x"
  shows "VecPointwiseMult (VecPointwiseMult (VecPointwiseMult x (design_mask p0 d))
            (design_mask p1 d)) (design_mask p2 d) ! i
         = x ! i * (1 - p0 ! i) * (1 - p1 ! i) * (1 - p2 ! i)"
  using assms
  by (simp add: VecPointwiseMult_nth VecPointwiseMult_length design_mask_length design_mask_nth)

lemma evaluator_gx:
  assumes "length p0 = length xp" "length p1 = length xp" "length p2 = length xp"
  shows "gx (ComputeObjectiveConstraintsSensitivities lib dsk s df0 dg0 xp Emin Emax penal vf p0 p1 p2) =
     (\<Sum>i<length xp. xp ! i * (1 - p0 ! i) * (1 - p1 ! i) * (1 - p2 ! i))
       / (real (length xp) - VecSum p0 - VecSum p1 - VecSum p2) - vf"
proof -
  let ?t = "VecPointwiseMult (VecPointwiseMult (VecPointwiseMult xp (design_mask p0 dg0))
            (design_mask p1 dg0)) (design_mask p2 dg0)"
  have g: "gx (ComputeObjectiveConstraintsSensitivities lib dsk s df0 dg0 xp Emin Emax penal vf p0 p1 p2) =
     VecSum ?t / (real (length ?t) - VecSum p0 - VecSum p1 - VecSum p2) - vf"
    by (simp add: ComputeObjectiveConstraintsSensitivities_def Let_def case_prod_beta
        design_mask_def VecGetSize_def VecCopy_def)
  have "VecSum ?t = (\<Sum>i<length xp. xp ! i * (1 - p0 ! i) * (1 - p1 ! i) * (1 - p2 ! i))"
    unfolding VecSum_nth masked_length [OF assms]
    by (rule sum.cong) (simp_all add: masked_nth [OF assms])
  with g show ?thesis by (simp only: masked_length [OF assms])
qed

lemma evaluator_dgdx:
  assumes "length p0 = length dg0" "length p1 = length dg0" "length p2 = length dg0"
      and "length xp = length dg0" and "i < length dg0"
  shows "dgdx (ComputeObjectiveConstraintsSensitivities lib dsk s df0 dg0 xp Emin Emax penal vf p0 p1 p2) ! i =
     1 / (real (length xp) - VecSum p0 - VecSum p1 - VecSum p2)
       * (1 - p0 ! i) * (1 - p1 ! i) * (1 - p2 ! i)"
proof -
  let ?d = "VecSet dg0 (1.0 / (real (length xp) - VecSum p0 - VecSum p1 - VecSum p2))"
  have t: "length (VecPointwiseMult (VecPointwiseMult (VecPointwiseMult xp (design_mask p0 dg0))
            (design_mask p1 dg0)) (design_mask p2 dg0)) = length xp"
    using assms by (simp add: masked_length)
  have d: "dgdx (ComputeObjectiveConstraintsSensitivities lib dsk s df0 dg0 xp Emin Emax penal vf p0 p1 p2) =
     VecPointwiseMult (VecPointwiseMult (VecPointwiseMult ?d (design_mask p0 dg0))
            (design_mask p1 dg0)) (design_mask p2 dg0)"
    using t
    by (simp add: ComputeObjectiveConstraintsSensitivities_def Let_def case_prod_beta
        design_mask_def VecGetSize_def VecCopy_def)
  have l: "length ?d = length dg0" by (simp add: VecSet_def)
  have n: "?d ! i = 1 / (real (length xp) - VecSum p0 - VecSum p1 - VecSum p2)"
    using assms by (simp add: VecSet_def)
  show ?thesis
    unfolding d using masked_nth [of p0 ?d p1 p2 i dg0] assms l n by simp
qed

subsection \<open>Assembly and Dirichlet elimination\<close>

lemma MatSetValuesLocal_add:
  "MatSetValuesLocal A m idxm n idxn y ADD_VALUES r c =
     A r c + (\<Sum>k<m. \<Sum>h<n. if idxm ! k = r \<and> idxn ! h = c then y ! (k * n + h) else 0)"
proof -
  have inner: "True \<and> fold (\<lambda>h B. B(idxm ! k := (B (idxm ! k))(idxn ! h :=
            set_value ADD_VALUES (B (idxm ! k) (idxn ! h)) (y ! (k * n + h))))) [0..<n] B r c
        = B r c + sum_list (map (\<lambda>h. if idxm ! k = r \<and> idxn ! h = c then y ! (k * n + h) else 0) [0..<n])"
    for k and B :: Mat
    by (rule fold_additive_step [where P = "\<lambda>_. True" and rd = "\<lambda>B. B r c"])
       (simp_all add: set_value_def)
  have "True \<and> MatSetValuesLocal A m idxm n idxn y ADD_VALUES r c =
     A r c + sum_list (map (\<lambda>k. sum_list (map (\<lambda>h. if idxm ! k = r \<and> idxn ! h = c
        then y ! (k * n + h) else 0) [0..<n])) [0..<m])"
    unfolding MatSetValuesLocal_def
    by (rule fold_additive_step [where P = "\<lambda>_. True" and rd = "\<lambda>B. B r c"]) (simp_all add: inner)
  then show ?thesis by (simp add: sum_list_upt_lessThan)
qed

lemma index_in_block: "k < n \<Longrightarrow> h < n \<Longrightarrow> k * n + h < n * (n::nat)"
proof -
  assume a: "k < n" "h < n"
  then have "k * n + h < k * n + n" by simp
  also have "\<dots> = (k + 1) * n" by simp
  also have "\<dots> \<le> n * n" using a by (metis Suc_eq_plus1 Suc_leI mult.commute mult_le_mono2)
  finally show ?thesis .
qed

lemma element_dofs_nth: "l < nen e \<Longrightarrow> element_dofs e i ! l = necon e ! (i * nen e + l)"
  by (simp add: element_dofs_def)

lemma assemble_elements_entry:
  assumes "nedof lib = nen (da_nodal s)"
  shows "assemble_elements lib s xp Emin Emax penal r c =
     (\<Sum>i<nel (da_nodal s). \<Sum>k<nedof lib. \<Sum>h<nedof lib.
        if necon (da_nodal s) ! (i * nen (da_nodal s) + k) = r
           \<and> necon (da_nodal s) ! (i * nen (da_nodal s) + h) = c
        then KE s ! (k * nedof lib + h) * (Emin + PetscPowScalar lib (xp ! i) penal * (Emax - Emin))
        else 0)"
proof -
  let ?e = "da_nodal s"
  let ?f = "\<lambda>i k h. if necon ?e ! (i * nen ?e + k) = r \<and> necon ?e ! (i * nen ?e + h) = c
        then KE s ! (k * nedof lib + h) * (Emin + PetscPowScalar lib (xp ! i) penal * (Emax - Emin))
        else 0"
  have step: "MatSetValuesLocal A (nedof lib) (element_dofs ?e i) (nedof lib) (element_dofs ?e i)
          (map (\<lambda>k. KE s ! k * (Emin + PetscPowScalar lib (xp ! i) penal * (Emax - Emin)))
             [0..<nedof lib * nedof lib]) ADD_VALUES r c
      = A r c + (\<Sum>k<nedof lib. \<Sum>h<nedof lib. ?f i k h)" for i and A :: Mat
    unfolding MatSetValuesLocal_add
    using assms by (auto intro!: sum.cong simp: element_dofs_nth index_in_block)
  have "True \<and> assemble_elements lib s xp Emin Emax penal r c =
     MatZeroEntries (K s) r c + sum_list (map (\<lambda>i. \<Sum>k<nedof lib. \<Sum>h<nedof lib. ?f i k h) [0..<nel ?e])"
    unfolding assemble_elements_def
    by (rule fold_additive_step [where P = "\<lambda>_. True" and rd = "\<lambda>B. B r c"])
       (simp_all add: Let_def step)
  then show ?thesis by (simp add: sum_list_upt_lessThan MatZeroEntries_def)
qed

lemma impose_dirichlet_K:
  assumes "r < length (N s)" and "c < length (N s)"
  shows "K (impose_dirichlet s) r c = N s ! r * K s r c * N s ! c + (if r = c then 1 - N s ! r else 0)"
  using assms
  by (simp add: impose_dirichlet_def Let_def MatDiagonalSet_def MatDiagonalScale_def set_value_def
      VecAXPY_def VecSet_def VecDuplicate_def)

lemma impose_dirichlet_RHS:
  assumes "r < length (N s)" and "length (RHS s) = length (N s)"
  shows "RHS (impose_dirichlet s) ! r = RHS s ! r * N s ! r"
  using assms by (simp add: impose_dirichlet_def Let_def VecPointwiseMult_def)

subsection \<open>Solver settings and checkpoint names\<close>






lemma restart_point_names:
  assumes "restart (restart_point lib dsk s)"
  shows "filename00 (restart_point lib dsk s) =
           (case opt_workdir lib of None \<Rightarrow> ''./'' | Some w \<Rightarrow> w) @ ''/RestartSol00.dat''
       \<and> filename01 (restart_point lib dsk s) =
           (case opt_workdir lib of None \<Rightarrow> ''./'' | Some w \<Rightarrow> w) @ ''/RestartSol01.dat''
       \<and> flip (restart_point lib dsk s)"
  using assms by (simp add: restart_point_def Let_def split: option.splits if_splits)

lemma SetUpSolver_restart_fields:
  "restart (SetUpSolver lib dsk s) = restart (restart_point lib dsk s)"
  "flip (SetUpSolver lib dsk s) = flip (restart_point lib dsk s)"
  "filename00 (SetUpSolver lib dsk s) = filename00 (restart_point lib dsk s)"
  "filename01 (SetUpSolver lib dsk s) = filename01 (restart_point lib dsk s)"
  by (simp_all add: SetUpSolver_def Let_def)

subsection \<open>Default load and boundary conditions\<close>









subsection \<open>The element kernel\<close>



















subsection \<open>Closed-form inverses and the unit square\<close>

lemma lessThan_4: "{..<4::nat} = {0, 1, 2, 3}" by auto




subsection \<open>The small grids\<close>

lemma sum_list_zero_entries:
  fixes p :: "real list"
  assumes "\<forall>i<length p. p ! i = 0"
  shows "sum_list p = 0"
  using assms by (simp add: sum_list_sum_nth)

lemma row_elements_from_grid: "DMDAGetElements_2D row_dm = row_elements"
  by (simp add: DMDAGetElements_2D_def row_dm_def row_elements_def Let_def upto.simps)

lemma block_elements_from_grid: "DMDAGetElements_3D block_dm = block_elements"
  by (simp add: DMDAGetElements_3D_def block_dm_def block_elements_def Let_def upto.simps)

lemma row_facts:
  "da_nodal row_object = row_elements" "nel row_elements = 4" "nen row_elements = 4"
  "nedof plain_lib = 4"
  by (simp_all add: row_object_def row_elements_def plain_lib_def)

lemma row_solve_U:
  "U (SolveState plain_lib [] row_object x a b c) = [0, 1, 2, 3, 4, 1, 2, 3, 4, 5]"
  by (simp add: SolveState_def AssembleConductivityMatrix_def impose_dirichlet_def
      SetUpSolver_def restart_point_def Let_def row_object_def plain_lib_def PetscOptionsGetBool_def)







section \<open>The claims\<close>

text \<open>
  Claim C1. For every density field, bounds \<open>Emin\<close>, \<open>Emax\<close> and exponent \<open>penal\<close>,
  \<^verbatim>\<open>AssembleConductivityMatrix\<close> is the Dirichlet elimination applied to the matrix
  that the element loop leaves; that matrix does not depend on the old content of
  \<^verbatim>\<open>K\<close>, which is zeroed first, and its entry at row \<open>r\<close> and column \<open>c\<close> is the sum,
  over the elements \<open>i\<close> and the local node pairs \<open>(k, h)\<close> of \<open>i\<close> that sit on the nodes
  \<open>(r, c)\<close>, of the entry \<open>(k, h)\<close> of the cached element matrix times
  \<open>Emin + xPhys[i]^penal * (Emax - Emin)\<close>. The header's \<^verbatim>\<open>nedof\<close> is the number of nodes
  of an element.
\<close>

theorem assembly_sums_element_contributions:
  assumes "nedof lib = nen (da_nodal s)"
  shows "AssembleConductivityMatrix lib s xPhys Emin Emax penal
           = impose_dirichlet (s\<lparr>K := assemble_elements lib s xPhys Emin Emax penal\<rparr>)
       \<and> assemble_elements lib (s\<lparr>K := A\<rparr>) xPhys Emin Emax penal
           = assemble_elements lib s xPhys Emin Emax penal
       \<and> assemble_elements lib s xPhys Emin Emax penal r c =
           (\<Sum>i<nel (da_nodal s). \<Sum>k<nedof lib. \<Sum>h<nedof lib.
              if necon (da_nodal s) ! (i * nen (da_nodal s) + k) = r
                 \<and> necon (da_nodal s) ! (i * nen (da_nodal s) + h) = c
              then KE s ! (k * nedof lib + h) * (Emin + PetscPowScalar lib (xPhys ! i) penal * (Emax - Emin))
              else 0)"
  using assemble_elements_entry [OF assms, of xPhys Emin Emax penal r c]
  by (simp add: AssembleConductivityMatrix_def assemble_elements_def MatZeroEntries_def)

text \<open>The theorem on the row of four elements: node 1 is the second node of element 0 and the
  first of element 1, and nodes 0 and 9 share no element.\<close>

theorem assembly_sums_element_contributions_witness:
  "assemble_elements plain_lib row_object row_density (1 / 10 ^ 9) 1 3 1 1
     = 2 / 3 * (1 / 10 ^ 9 + (1 / 2) ^ 3 * (1 - 1 / 10 ^ 9))
       + 2 / 3 * (1 / 10 ^ 9 + (1 / 2) ^ 3 * (1 - 1 / 10 ^ 9))
   \<and> assemble_elements plain_lib row_object row_density (1 / 10 ^ 9) 1 3 0 9 = 0"
proof -
  have p: "PetscPowScalar plain_lib x 3 = x ^ 3" for x
    by (simp add: plain_lib_def)
  have d: "row_density ! i = 1 / 2" if "i < 4" for i
    using that by (auto simp: row_density_def less_Suc_eq numeral_eq_Suc)
  have n: "necon row_elements = [0, 1, 6, 5,  1, 2, 7, 6,  2, 3, 8, 7,  3, 4, 9, 8]"
    by (simp add: row_elements_def)
  have k: "KE row_object = [2 / 3, - 1 / 6, - 1 / 3, - 1 / 6, - 1 / 6, 2 / 3, - 1 / 6, - 1 / 3,
           - 1 / 3, - 1 / 6, 2 / 3, - 1 / 6, - 1 / 6, - 1 / 3, - 1 / 6, 2 / 3]"
    by (simp add: row_object_def)
  note t1 = assembly_sums_element_contributions [where lib = plain_lib and s = row_object
      and xPhys = row_density and Emin = "1 / 10 ^ 9" and Emax = 1 and penal = 3 and r = 1 and c = 1]
  note t2 = assembly_sums_element_contributions [where lib = plain_lib and s = row_object
      and xPhys = row_density and Emin = "1 / 10 ^ 9" and Emax = 1 and penal = 3 and r = 0 and c = 9]
  from t1 have "assemble_elements plain_lib row_object row_density (1 / 10 ^ 9) 1 3 1 1
     = 2 / 3 * (1 / 10 ^ 9 + (1 / 2) ^ 3 * (1 - 1 / 10 ^ 9))
       + 2 / 3 * (1 / 10 ^ 9 + (1 / 2) ^ 3 * (1 - 1 / 10 ^ 9))"
    by (simp add: row_facts p n k lessThan_4 row_density_def)
  moreover from t2 have "assemble_elements plain_lib row_object row_density (1 / 10 ^ 9) 1 3 0 9 = 0"
    by (simp add: row_facts p n k lessThan_4 row_density_def)
  ultimately show ?thesis by simp
qed

text \<open>
  Claim C2. After \<^verbatim>\<open>AssembleConductivityMatrix\<close>, with \<open>A\<close> the matrix the element loop
  leaves and \<open>r\<close>, \<open>c\<close> two nodes: the entry of \<^verbatim>\<open>K\<close> is
  \<open>N[r] * A[r][c] * N[c]\<close> plus \<open>1 - N[r]\<close> on the diagonal, the load is \<open>RHS[r] * N[r]\<close>, and
  the mask is unchanged. So at a fixed node \<open>r\<close> (mask 0) the row and the column of \<open>r\<close>
  are those of the identity and the load is 0, and between two free nodes (mask 1) the
  entry of \<^verbatim>\<open>K\<close> and the load of a free node are what they were.
\<close>

theorem dirichlet_elimination:
  assumes "r < length (N s)" and "c < length (N s)" and "length (RHS s) = length (N s)"
  shows "(let s' = AssembleConductivityMatrix lib s xPhys Emin Emax penal;
              A = assemble_elements lib s xPhys Emin Emax penal
          in K s' r c = N s ! r * A r c * N s ! c + (if r = c then 1 - N s ! r else 0)
           \<and> RHS s' ! r = RHS s ! r * N s ! r
           \<and> N s' = N s
           \<and> (N s ! r = 0 \<longrightarrow>
                K s' r c = (if r = c then 1 else 0) \<and> K s' c r = (if c = r then 1 else 0)
                \<and> RHS s' ! r = 0)
           \<and> (N s ! r = 1 \<and> N s ! c = 1 \<longrightarrow> K s' r c = A r c)
           \<and> (N s ! r = 1 \<longrightarrow> RHS s' ! r = RHS s ! r))"
  using assms
    impose_dirichlet_K [of r "s\<lparr>K := assemble_elements lib s xPhys Emin Emax penal\<rparr>" c]
    impose_dirichlet_K [of c "s\<lparr>K := assemble_elements lib s xPhys Emin Emax penal\<rparr>" r]
    impose_dirichlet_RHS [of r "s\<lparr>K := assemble_elements lib s xPhys Emin Emax penal\<rparr>"]
  by (auto simp: AssembleConductivityMatrix_def Let_def) (simp add: impose_dirichlet_def Let_def)

text \<open>The theorem on the row of four elements, where node 2 is fixed and nodes 0 and 1 are
  free.\<close>

theorem dirichlet_elimination_witness:
  "N row_object ! 2 = 0
   \<and> K (AssembleConductivityMatrix plain_lib row_object row_density (1 / 10 ^ 9) 1 3) 2 2 = 1
   \<and> K (AssembleConductivityMatrix plain_lib row_object row_density (1 / 10 ^ 9) 1 3) 2 1 = 0
   \<and> K (AssembleConductivityMatrix plain_lib row_object row_density (1 / 10 ^ 9) 1 3) 1 2 = 0
   \<and> RHS (AssembleConductivityMatrix plain_lib row_object row_density (1 / 10 ^ 9) 1 3) ! 2 = 0
   \<and> N row_object ! 0 = 1 \<and> N row_object ! 1 = 1
   \<and> K (AssembleConductivityMatrix plain_lib row_object row_density (1 / 10 ^ 9) 1 3) 0 1
       = assemble_elements plain_lib row_object row_density (1 / 10 ^ 9) 1 3 0 1
   \<and> RHS (AssembleConductivityMatrix plain_lib row_object row_density (1 / 10 ^ 9) 1 3) ! 0 = 1 / 4000"
proof -
  have f: "N row_object = [1, 1, 0, 1, 1, 1, 1, 1, 1, 1]" "length (RHS row_object) = 10"
    "RHS row_object ! 0 = 1 / 4000"
    by (simp_all add: row_object_def)
  note t1 = dirichlet_elimination [where s = row_object and r = 2 and c = 2 and lib = plain_lib
      and xPhys = row_density and Emin = "1 / 10 ^ 9" and Emax = 1 and penal = 3, unfolded Let_def]
  note t2 = dirichlet_elimination [where s = row_object and r = 2 and c = 1 and lib = plain_lib
      and xPhys = row_density and Emin = "1 / 10 ^ 9" and Emax = 1 and penal = 3, unfolded Let_def]
  note t3 = dirichlet_elimination [where s = row_object and r = 0 and c = 1 and lib = plain_lib
      and xPhys = row_density and Emin = "1 / 10 ^ 9" and Emax = 1 and penal = 3, unfolded Let_def]
  from t1 t2 t3 show ?thesis
    by (simp add: f)
qed

text \<open>
  Claim C3. In \<^verbatim>\<open>ComputeObjectiveConstraintsSensitivities\<close>, with \<open>uKu i\<close> the quadratic
  form of the element matrix at the solved temperatures of the nodes of element \<open>i\<close>: the
  objective \<open>fx\<close> is the sum, over the elements whose three passive flags are all 0, of
  \<open>(Emin + xPhys[i]^penal * (Emax - Emin)) * uKu i\<close>, so that an element with a nonzero
  flag adds nothing; and at each element whose flags are all 0 the sensitivity is
  \<open>- penal * xPhys[i]^(penal - 1) * (Emax - Emin) * uKu i\<close>.
\<close>

theorem objective_and_sensitivity:
  assumes "nedof lib = nen (da_nodal s)"
  shows "(let r = ComputeObjectiveConstraintsSensitivities lib dsk s dfdx0 dgdx0 xPhys Emin Emax penal
                    volfrac xPassive0 xPassive1 xPassive2;
              uKu = quadratic_form (nedof lib) (KE s) (U (state r)) (da_nodal s)
          in fx r = (\<Sum>i<nel (da_nodal s).
                       if xPassive0 ! i = 0 \<and> xPassive1 ! i = 0 \<and> xPassive2 ! i = 0
                       then (Emin + PetscPowScalar lib (xPhys ! i) penal * (Emax - Emin)) * uKu i
                       else 0)
           \<and> (\<forall>i. i < nel (da_nodal s) \<and> i < length dfdx0
                  \<and> xPassive0 ! i = 0 \<and> xPassive1 ! i = 0 \<and> xPassive2 ! i = 0 \<longrightarrow>
                dfdx r ! i = - penal * PetscPowScalar lib (xPhys ! i) (penal - 1) * (Emax - Emin) * uKu i))"
proof -
  have q: "element_uKu (nedof lib) (KE s) u (element_dofs (da_nodal s) i)
      = quadratic_form (nedof lib) (KE s) u (da_nodal s) i" for u i
    unfolding element_uKu_sum quadratic_form_def
    using assms by (intro sum.cong refl) (simp add: element_dofs_nth)
  show ?thesis
    unfolding Let_def evaluator_state
    by (simp add: evaluator_fx sensitivity_loop_fst SolveState_frame evaluator_dfdx_nth q cong: if_cong)
qed

text \<open>The theorem on the row of four elements, where element 0 alone is free and its quadratic
  form is 2.\<close>

theorem objective_and_sensitivity_witness:
  "fx row_response = (1 / 10 ^ 9 + (1 / 2) ^ 3 * (1 - 1 / 10 ^ 9)) * 2
   \<and> dfdx row_response ! 0 = - 3 * (1 / 2) ^ 2 * (1 - 1 / 10 ^ 9) * 2"
proof -
  note t = objective_and_sensitivity [where s = row_object and ?dfdx0.0 = "[5, 5, 5, 5]"
      and ?xPassive0.0 = row_solid and ?xPassive1.0 = row_fixed and ?xPassive2.0 = row_loaded
      and lib = plain_lib and dsk = "[]" and ?dgdx0.0 = "[0, 0, 0, 0]" and xPhys = row_density
      and Emin = "1 / 10 ^ 9" and Emax = 1 and penal = 3 and volfrac = "2 / 5",
      unfolded Let_def, folded row_response_def]
  have u: "U (state row_response) = [0, 1, 2, 3, 4, 1, 2, 3, 4, 5]"
    by (simp add: row_response_def evaluator_state row_solve_U)
  have q: "quadratic_form 4 (KE row_object) [0, 1, 2, 3, 4, 1, 2, 3, 4, 5] row_elements 0 = 2"
    by (simp add: quadratic_form_def lessThan_4 row_object_def row_elements_def)
  have p: "PetscPowScalar plain_lib x 3 = x ^ 3" "PetscPowScalar plain_lib x 2 = x ^ 2" for x
    by (simp_all add: plain_lib_def)
  have f: "(\<Sum>i<4. if row_solid ! i = 0 \<and> row_fixed ! i = 0 \<and> row_loaded ! i = 0 then g i else 0)
      = g 0" for g :: "nat \<Rightarrow> real"
    by (simp add: lessThan_4 row_solid_def row_fixed_def row_loaded_def)
  have d: "row_density ! 0 = 1 / 2" "row_solid ! 0 = 0" "row_fixed ! 0 = 0" "row_loaded ! 0 = 0"
    by (simp_all add: row_density_def row_solid_def row_fixed_def row_loaded_def)
  from t show ?thesis
    by (simp add: row_facts u f q p d)
qed

text \<open>
  Claim C4 says that every element whose fixed or loaded flag is 1 gets the sensitivity
  \<open>-1e9\<close>. On the row of four elements, element 1 is loaded and solid, and its
  sensitivity is \<open>+1e9\<close>.
\<close>

theorem sentinel_counterexample:
  "row_loaded ! 1 = 1 \<and> dfdx row_response ! 1 = 1.0 * 10 ^ 9 \<and> dfdx row_response ! 1 \<noteq> - 1.0 * 10 ^ 9"
  using evaluator_dfdx_nth [where i = 1 and s = row_object and ?df0.0 = "[5, 5, 5, 5]"
      and ?p0.0 = row_solid and ?p1.0 = row_fixed and ?p2.0 = row_loaded
      and lib = plain_lib and dsk = "[]" and ?dg0.0 = "[0, 0, 0, 0]" and xp = row_density
      and Emin = "1 / 10 ^ 9" and Emax = 1 and penal = 3 and vf = "2 / 5"]
  by (simp add: row_response_def row_facts row_solid_def row_fixed_def row_loaded_def)

text \<open>
  Claim C4, amended. Whatever the densities and the temperature field, an element whose
  solid flag is 1 gets the sensitivity \<open>+1e9\<close>, and an element whose fixed or loaded flag
  is 1 and whose solid flag is not 1 gets the sensitivity \<open>-1e9\<close>.
\<close>

theorem sentinel_sensitivities:
  assumes "i < nel (da_nodal s)" and "i < length dfdx0"
  shows "(xPassive0 ! i = 1 \<longrightarrow>
            dfdx (ComputeObjectiveConstraintsSensitivities lib dsk s dfdx0 dgdx0 xPhys Emin Emax penal
                    volfrac xPassive0 xPassive1 xPassive2) ! i = 1.0 * 10 ^ 9)
       \<and> ((xPassive1 ! i = 1 \<or> xPassive2 ! i = 1) \<and> xPassive0 ! i \<noteq> 1 \<longrightarrow>
            dfdx (ComputeObjectiveConstraintsSensitivities lib dsk s dfdx0 dgdx0 xPhys Emin Emax penal
                    volfrac xPassive0 xPassive1 xPassive2) ! i = - 1.0 * 10 ^ 9)"
  using assms by (auto simp: evaluator_dfdx_nth)

text \<open>The theorem on the row of four elements, at the solid element 1 and the fixed element 2.\<close>

theorem sentinel_sensitivities_witness:
  "row_solid ! 1 = 1 \<and> dfdx row_response ! 1 = 1.0 * 10 ^ 9
   \<and> row_fixed ! 2 = 1 \<and> row_solid ! 2 \<noteq> 1 \<and> dfdx row_response ! 2 = - 1.0 * 10 ^ 9"
  using sentinel_sensitivities [where i = 1 and s = row_object and ?dfdx0.0 = "[5, 5, 5, 5]"
      and ?xPassive0.0 = row_solid and ?xPassive1.0 = row_fixed and ?xPassive2.0 = row_loaded
      and lib = plain_lib and dsk = "[]" and ?dgdx0.0 = "[0, 0, 0, 0]" and xPhys = row_density
      and Emin = "1 / 10 ^ 9" and Emax = 1 and penal = 3 and volfrac = "2 / 5"]
    sentinel_sensitivities [where i = 2 and s = row_object and ?dfdx0.0 = "[5, 5, 5, 5]"
      and ?xPassive0.0 = row_solid and ?xPassive1.0 = row_fixed and ?xPassive2.0 = row_loaded
      and lib = plain_lib and dsk = "[]" and ?dgdx0.0 = "[0, 0, 0, 0]" and xPhys = row_density
      and Emin = "1 / 10 ^ 9" and Emax = 1 and penal = 3 and volfrac = "2 / 5"]
  by (simp add: row_response_def row_facts row_solid_def row_fixed_def row_loaded_def)

text \<open>
  Claim C5. With passive flags that are 0 or 1, vectors of one length and a nonzero
  designable count \<open>D\<close>, the element count minus the sums of the three flag vectors:
  the volume constraint \<open>gx\<close> is the sum of the densities of the elements whose three flags
  are all 0, divided by \<open>D\<close>, minus \<open>volfrac\<close>; its sensitivity is \<open>1 / D\<close> at those
  elements and 0 at every other; and when the density is \<open>volfrac\<close> everywhere and every
  flag is 0, \<open>gx\<close> is 0.
\<close>

theorem volume_constraint:
  assumes "length xPassive0 = length xPhys" and "length xPassive1 = length xPhys"
      and "length xPassive2 = length xPhys" and "length dgdx0 = length xPhys"
      and "\<forall>i<length xPhys. xPassive0 ! i \<in> {0, 1} \<and> xPassive1 ! i \<in> {0, 1} \<and> xPassive2 ! i \<in> {0, 1}"
      and "real (length xPhys) - sum_list xPassive0 - sum_list xPassive1 - sum_list xPassive2 \<noteq> 0"
  shows "(let r = ComputeObjectiveConstraintsSensitivities lib dsk s dfdx0 dgdx0 xPhys Emin Emax penal
                    volfrac xPassive0 xPassive1 xPassive2;
              D = real (length xPhys) - sum_list xPassive0 - sum_list xPassive1 - sum_list xPassive2
          in gx r = (\<Sum>i<length xPhys.
                       if xPassive0 ! i = 0 \<and> xPassive1 ! i = 0 \<and> xPassive2 ! i = 0
                       then xPhys ! i else 0) / D - volfrac
           \<and> (\<forall>i<length xPhys.
                 dgdx r ! i = (if xPassive0 ! i = 0 \<and> xPassive1 ! i = 0 \<and> xPassive2 ! i = 0
                               then 1 / D else 0))
           \<and> ((\<forall>i<length xPhys. xPhys ! i = volfrac
                    \<and> xPassive0 ! i = 0 \<and> xPassive1 ! i = 0 \<and> xPassive2 ! i = 0) \<longrightarrow> gx r = 0))"
proof -
  let ?D = "real (length xPhys) - sum_list xPassive0 - sum_list xPassive1 - sum_list xPassive2"
  let ?r = "ComputeObjectiveConstraintsSensitivities lib dsk s dfdx0 dgdx0 xPhys Emin Emax penal
                    volfrac xPassive0 xPassive1 xPassive2"
  let ?free = "\<lambda>i. xPassive0 ! i = 0 \<and> xPassive1 ! i = 0 \<and> xPassive2 ! i = 0"
  have mask: "(1 - xPassive0 ! i) * (1 - xPassive1 ! i) * (1 - xPassive2 ! i) = (if ?free i then 1 else 0)"
    if "i < length xPhys" for i
    using assms(5) that by auto
  have e: "(\<Sum>i<length xPhys. xPhys ! i * (1 - xPassive0 ! i) * (1 - xPassive1 ! i) * (1 - xPassive2 ! i))
      = (\<Sum>i<length xPhys. if ?free i then xPhys ! i else 0)"
  proof (rule sum.cong [OF refl])
    fix i assume "i \<in> {..<length xPhys}"
    then have "i < length xPhys" by simp
    with assms(5)
    show "xPhys ! i * (1 - xPassive0 ! i) * (1 - xPassive1 ! i) * (1 - xPassive2 ! i)
        = (if ?free i then xPhys ! i else 0)"
      by auto
  qed
  have g: "gx ?r = (\<Sum>i<length xPhys. if ?free i then xPhys ! i else 0) / ?D - volfrac"
    by (simp only: evaluator_gx [OF assms(1-3)] VecSum_sum_list e)
  have d: "dgdx ?r ! i = (if ?free i then 1 / ?D else 0)" if "i < length xPhys" for i
  proof -
    have l: "length xPassive0 = length dgdx0" "length xPassive1 = length dgdx0"
      "length xPassive2 = length dgdx0" "length xPhys = length dgdx0" "i < length dgdx0"
      using assms(1-4) that by simp_all
    have "dgdx ?r ! i = 1 / ?D * (1 - xPassive0 ! i) * (1 - xPassive1 ! i) * (1 - xPassive2 ! i)"
      by (simp only: evaluator_dgdx [OF l] VecSum_sum_list)
    with assms(5) that show ?thesis by auto
  qed
  have u: "gx ?r = 0"
    if h: "\<forall>i<length xPhys. xPhys ! i = volfrac \<and> ?free i"
  proof -
    have z: "sum_list xPassive0 = 0" "sum_list xPassive1 = 0" "sum_list xPassive2 = 0"
      using h assms(1-3) by (simp_all add: sum_list_zero_entries)
    have "(\<Sum>i<length xPhys. if ?free i then xPhys ! i else 0) = (\<Sum>i<length xPhys. volfrac)"
      by (rule sum.cong [OF refl]) (use h in simp)
    then show ?thesis
      using assms(6) by (simp add: g z)
  qed
  show ?thesis
    unfolding Let_def using g d u by blast
qed

text \<open>The theorem on the row of four elements, with elements 0 and 3 free and with a uniform
  density on a free domain.\<close>

theorem volume_constraint_witness:
  "gx (ComputeObjectiveConstraintsSensitivities plain_lib [] row_object [5, 5, 5, 5] [0, 0, 0, 0]
         row_density (1 / 10 ^ 9) 1 3 (2 / 5) row_loaded row_fixed row_loaded) = (1 / 2 + 1 / 2) / 1 - 2 / 5
   \<and> dgdx (ComputeObjectiveConstraintsSensitivities plain_lib [] row_object [5, 5, 5, 5] [0, 0, 0, 0]
         row_density (1 / 10 ^ 9) 1 3 (2 / 5) row_loaded row_fixed row_loaded) ! 0 = 1
   \<and> dgdx (ComputeObjectiveConstraintsSensitivities plain_lib [] row_object [5, 5, 5, 5] [0, 0, 0, 0]
         row_density (1 / 10 ^ 9) 1 3 (2 / 5) row_loaded row_fixed row_loaded) ! 1 = 0
   \<and> gx (ComputeObjectiveConstraintsSensitivities plain_lib [] row_object [5, 5, 5, 5] [0, 0, 0, 0]
         [2 / 5, 2 / 5, 2 / 5, 2 / 5] (1 / 10 ^ 9) 1 3 (2 / 5) [0, 0, 0, 0] [0, 0, 0, 0] [0, 0, 0, 0]) = 0"
proof -
  note t1 = volume_constraint [where xPhys = row_density and ?dgdx0.0 = "[0, 0, 0, 0]"
      and ?xPassive0.0 = row_loaded and ?xPassive1.0 = row_fixed and ?xPassive2.0 = row_loaded
      and lib = plain_lib and dsk = "[]" and s = row_object and ?dfdx0.0 = "[5, 5, 5, 5]"
      and Emin = "1 / 10 ^ 9" and Emax = 1 and penal = 3 and volfrac = "2 / 5", unfolded Let_def]
  note t2 = volume_constraint [where xPhys = "[2 / 5, 2 / 5, 2 / 5, 2 / 5]" and ?dgdx0.0 = "[0, 0, 0, 0]"
      and ?xPassive0.0 = "[0, 0, 0, 0]" and ?xPassive1.0 = "[0, 0, 0, 0]" and ?xPassive2.0 = "[0, 0, 0, 0]"
      and lib = plain_lib and dsk = "[]" and s = row_object and ?dfdx0.0 = "[5, 5, 5, 5]"
      and Emin = "1 / 10 ^ 9" and Emax = 1 and penal = 3 and volfrac = "2 / 5", unfolded Let_def]
  from t1 have "gx (ComputeObjectiveConstraintsSensitivities plain_lib [] row_object [5, 5, 5, 5] [0, 0, 0, 0]
         row_density (1 / 10 ^ 9) 1 3 (2 / 5) row_loaded row_fixed row_loaded) = (1 / 2 + 1 / 2) / 1 - 2 / 5
   \<and> dgdx (ComputeObjectiveConstraintsSensitivities plain_lib [] row_object [5, 5, 5, 5] [0, 0, 0, 0]
         row_density (1 / 10 ^ 9) 1 3 (2 / 5) row_loaded row_fixed row_loaded) ! 0 = 1
   \<and> dgdx (ComputeObjectiveConstraintsSensitivities plain_lib [] row_object [5, 5, 5, 5] [0, 0, 0, 0]
         row_density (1 / 10 ^ 9) 1 3 (2 / 5) row_loaded row_fixed row_loaded) ! 1 = 0"
    by (simp add: row_density_def row_loaded_def row_fixed_def All_less_Suc)
  moreover from t2 have "gx (ComputeObjectiveConstraintsSensitivities plain_lib [] row_object [5, 5, 5, 5] [0, 0, 0, 0]
         [2 / 5, 2 / 5, 2 / 5, 2 / 5] (1 / 10 ^ 9) 1 3 (2 / 5) [0, 0, 0, 0] [0, 0, 0, 0] [0, 0, 0, 0]) = 0"
    by (simp add: All_less_Suc)
  ultimately show ?thesis by simp
qed








text \<open>
  Claim C9. \<^verbatim>\<open>SetUpSolver\<close>, when it leaves the restart enabled, sets the flip flag and
  names the two files \<^verbatim>\<open>/RestartSol00.dat\<close> and \<^verbatim>\<open>/RestartSol01.dat\<close> in the working
  directory. From any state with the restart enabled and the files so named, a call of
  \<^verbatim>\<open>WriteRestartFiles\<close> succeeds, toggles the flip flag and writes the temperature field
  to the file its new value selects; the next call, whatever the temperature field has
  become, succeeds too and writes to the other file; and the restart flag and the two
  names are as before, so the same holds of every later pair of calls.
\<close>

theorem checkpoint_files_alternate:
  "(restart (SetUpSolver lib dsk0 s0) \<longrightarrow>
      flip (SetUpSolver lib dsk0 s0)
    \<and> filename00 (SetUpSolver lib dsk0 s0) =
        (case opt_workdir lib of None \<Rightarrow> ''./'' | Some w \<Rightarrow> w) @ ''/RestartSol00.dat''
    \<and> filename01 (SetUpSolver lib dsk0 s0) =
        (case opt_workdir lib of None \<Rightarrow> ''./'' | Some w \<Rightarrow> w) @ ''/RestartSol01.dat'')
   \<and> (restart s \<and> filename00 s = wd @ ''/RestartSol00.dat''
        \<and> filename01 s = wd @ ''/RestartSol01.dat'' \<longrightarrow>
       (let s1 = s\<lparr>flip := \<not> flip s\<rparr>;
            f1 = (if flip s1 then filename01 s else filename00 s);
            d1 = (f1, U s) # dsk;
            s2 = s1\<lparr>U := u, flip := \<not> flip s1\<rparr>;
            f2 = (if flip s2 then filename01 s else filename00 s)
        in WriteRestartFiles dsk s = (0, s1, d1)
         \<and> WriteRestartFiles d1 (s1\<lparr>U := u\<rparr>) = (0, s2, (f2, u) # d1)
         \<and> f1 \<noteq> f2
         \<and> restart s2 \<and> filename00 s2 = filename00 s \<and> filename01 s2 = filename01 s))"
  using restart_point_names [of lib dsk0 s0]
  by (auto simp: SetUpSolver_restart_fields WriteRestartFiles_def Let_def)

text \<open>The theorem on two checkpoints written after the set-up of the solver.\<close>

theorem checkpoint_files_alternate_witness:
  "restart row_configured
   \<and> fst first_write = 0 \<and> map fst (snd (snd first_write)) = [''.//RestartSol00.dat'']
   \<and> fst second_write = 0
   \<and> map fst (snd (snd second_write)) = [''.//RestartSol01.dat'', ''.//RestartSol00.dat'']"
proof -
  have r: "restart row_configured"
    by (simp add: row_configured_def SetUpSolver_restart_fields restart_point_def Let_def
        plain_lib_def PetscOptionsGetBool_def)
  note t = checkpoint_files_alternate [where lib = plain_lib and ?dsk0.0 = "[]" and ?s0.0 = row_object
      and s = row_configured and wd = "''./''" and dsk = "[]"
      and u = "U (row_configured\<lparr>flip := \<not> flip row_configured\<rparr>)",
      folded row_configured_def, unfolded Let_def]
  have w: "opt_workdir plain_lib = None" by (simp add: plain_lib_def)
  from t r show ?thesis
    by (auto simp: first_write_def second_write_def w)
qed

text \<open>
  Claim C10. In \<^verbatim>\<open>ComputeObjectiveConstraintsSensitivities\<close> an element whose solid flag is
  1 gets the sensitivity \<open>+1e9\<close>, and not \<open>-1e9\<close>, also when its fixed or loaded flag is 1;
  and an element whose flags are not all 0 while none is 1 keeps the value its entry of
  \<^verbatim>\<open>dfdx\<close> had before the call.
\<close>

theorem solid_takes_precedence:
  assumes "i < nel (da_nodal s)" and "i < length dfdx0"
  shows "(xPassive0 ! i = 1 \<longrightarrow>
            dfdx (ComputeObjectiveConstraintsSensitivities lib dsk s dfdx0 dgdx0 xPhys Emin Emax penal
                    volfrac xPassive0 xPassive1 xPassive2) ! i = 1.0 * 10 ^ 9)
       \<and> (xPassive0 ! i = 1 \<and> (xPassive1 ! i = 1 \<or> xPassive2 ! i = 1) \<longrightarrow>
            dfdx (ComputeObjectiveConstraintsSensitivities lib dsk s dfdx0 dgdx0 xPhys Emin Emax penal
                    volfrac xPassive0 xPassive1 xPassive2) ! i \<noteq> - 1.0 * 10 ^ 9)
       \<and> (\<not> (xPassive0 ! i = 0 \<and> xPassive1 ! i = 0 \<and> xPassive2 ! i = 0)
            \<and> xPassive0 ! i \<noteq> 1 \<and> xPassive1 ! i \<noteq> 1 \<and> xPassive2 ! i \<noteq> 1 \<longrightarrow>
            dfdx (ComputeObjectiveConstraintsSensitivities lib dsk s dfdx0 dgdx0 xPhys Emin Emax penal
                    volfrac xPassive0 xPassive1 xPassive2) ! i = dfdx0 ! i)"
  using assms by (simp add: evaluator_dfdx_nth)

text \<open>The theorem on the row of four elements, at element 1, solid and loaded, and at element
  3, whose only nonzero flag is 1/2.\<close>

theorem solid_takes_precedence_witness:
  "row_solid ! 1 = 1 \<and> row_loaded ! 1 = 1 \<and> dfdx row_response ! 1 = 1.0 * 10 ^ 9
   \<and> row_solid ! 3 = 1 / 2 \<and> row_fixed ! 3 = 0 \<and> row_loaded ! 3 = 0 \<and> dfdx row_response ! 3 = 5"
  using solid_takes_precedence [where i = 1 and s = row_object and ?dfdx0.0 = "[5, 5, 5, 5]"
      and ?xPassive0.0 = row_solid and ?xPassive1.0 = row_fixed and ?xPassive2.0 = row_loaded
      and lib = plain_lib and dsk = "[]" and ?dgdx0.0 = "[0, 0, 0, 0]" and xPhys = row_density
      and Emin = "1 / 10 ^ 9" and Emax = 1 and penal = 3 and volfrac = "2 / 5"]
    solid_takes_precedence [where i = 3 and s = row_object and ?dfdx0.0 = "[5, 5, 5, 5]"
      and ?xPassive0.0 = row_solid and ?xPassive1.0 = row_fixed and ?xPassive2.0 = row_loaded
      and lib = plain_lib and dsk = "[]" and ?dgdx0.0 = "[0, 0, 0, 0]" and xPhys = row_density
      and Emin = "1 / 10 ^ 9" and Emax = 1 and penal = 3 and volfrac = "2 / 5"]
  by (simp add: row_response_def row_facts row_solid_def row_fixed_def row_loaded_def)

end
